theory Spec2Isabelle
  imports Complex_Main
begin

section \<open>Data model of \<open>alphazero/Coach.py\<close>\<close>

text \<open>
  The coordinator class \<open>Coach\<close> is embedded by explicit state passing.  Python integers
  are \<open>int\<close>.  Floating-point quantities (win rates, tensor entries, the expert value
  weight) are idealised as \<open>real\<close>; the code only compares, copies and stores them.  A
  tensor is the list of its rows, a row the list of its entries; shapes are not checked.
  A snapshot of network parameters is an opaque token.
\<close>

type_synonym weights = nat
type_synonym row = "real list"
type_synonym tensor = "row list"
type_synonym sample = "row \<times> row \<times> real"
type_synonym dataset = "tensor \<times> tensor \<times> tensor"

text \<open>Exceptions that the modelled code can raise.\<close>

datatype error =
    UserWarning
  | FileNotFoundError
  | IndexError
  | ZeroDivisionError
  | AssertionError

text \<open>
  Calls into external collaborators (network wrapper, arena, file system) are recorded in
  the order in which the coordinator performs them.  A checkpoint is addressed by the pair
  (folder, file name) that the code passes to the network wrapper.
\<close>

datatype event =
    PnetLoad string string
  | NnetLoad string string
  | NnetSave string string
  | OsRemove string string
  | ArenaPlayGames bool int
  | ArenaRandomGames int
  | NnetProcess nat
  | BatchReadySet nat
  | TorchSave string
  | TorchLoad string
  | NnetTrain int

text \<open>The entries of \<open>DEFAULT_ARGS\<close> that \<open>Coach\<close> reads or writes.\<close>

record dotdict =
  workers :: int
  startIter :: int
  numIters :: int
  process_batch_size :: int
  train_steps_per_iteration :: int
  gamesPerIteration :: int
  numItersForTrainExamplesHistory :: int
  numWarmupIters :: int
  skipSelfPlayIters :: int
  compareWithRandom :: bool
  arenaCompareRandom :: int
  arenaCompare :: int
  arenaMCTS :: bool
  arenaBatched :: bool
  randomCompareFreq :: int
  compareWithPast :: bool
  pastCompareFreq :: int
  model_gating :: bool
  max_gating_iters :: int
  min_next_model_winrate :: real
  ev_start :: real
  ev_end :: real
  ev_iterations :: int
  ev_current :: real
  checkpoint :: string
  data :: string

text \<open>
  The attributes of a \<open>Coach\<close> object, together with the two file stores it works on
  (checkpoints under \<open>args.checkpoint\<close>, shards under \<open>args.data\<close>) and the trace of
  external calls.  The shared counters \<open>completed\<close> and \<open>games_played\<close> and the ready
  queue are written by the worker processes; their values are inputs of the batching loop
  (see \<open>obs\<close>) and are not part of this record.
\<close>

record coach =
  args :: dotdict
  current_iter :: int
  gating_counter :: int
  warmup :: bool
  nnet :: weights
  pnet :: weights
  agents :: "nat list"
  input_tensors :: "tensor list"
  policy_tensors :: "tensor list"
  value_tensors :: "tensor list"
  batch_ready :: "bool list"
  file_queue :: "sample list"
  ckpt_files :: "string \<times> string \<Rightarrow> weights option"
  data_files :: "string \<Rightarrow> tensor option"
  trace :: "event list"

text \<open>
  What a call does: it returns a value, it raises an exception (leaving the object in the
  state reached at the raise), or it has not returned: it blocks on a queue that the
  workers never fill, or its loop is still running when the supplied observations of the
  workers are used up.
\<close>

datatype 'a outcome = Returns 'a | Raises error coach | NoReturn

definition bind :: "'a outcome \<Rightarrow> ('a \<Rightarrow> 'b outcome) \<Rightarrow> 'b outcome" where
  "bind r f = (case r of Returns v \<Rightarrow> f v | Raises e s \<Rightarrow> Raises e s | NoReturn \<Rightarrow> NoReturn)"

text \<open>
  External collaborators with fixed interfaces: \<open>get_iter_file\<close> of \<open>alphazero/utils.py\<close>
  (not part of the sources at hand, taken as a parameter), the rounding to \<open>float32\<close>
  done by \<open>astype\<close> and by the assignment into a \<open>torch.zeros\<close> tensor, the forward pass
  \<open>nnet.process\<close> for given parameters, and the sizes reported by the game.
\<close>

record ext =
  get_iter_file :: "int \<Rightarrow> string"
  f32 :: "real \<Rightarrow> real"
  nnet_process :: "weights \<Rightarrow> tensor \<Rightarrow> tensor \<times> tensor"
  observation_size :: nat
  action_size :: nat

section \<open>Model gating (\<open>Coach.compareToPast\<close>)\<close>

text \<open>The condition of the gating \<open>if\<close> (lines 324--329); \<open>0\<close> is the falsy integer.\<close>

definition gate_rejects :: "dotdict \<Rightarrow> real \<Rightarrow> int \<Rightarrow> bool" where
  "gate_rejects a winrate gc \<longleftrightarrow>
     model_gating a \<and> winrate < min_next_model_winrate a
     \<and> max_gating_iters a \<noteq> 0 \<and> gc \<le> max_gating_iters a"

text \<open>
  The gating block (lines 323--336).  \<open>load_checkpoint\<close> and \<open>os.remove\<close> raise when the
  file does not exist.
\<close>

definition gate :: "ext \<Rightarrow> real \<Rightarrow> int \<Rightarrow> int \<Rightarrow> coach \<Rightarrow> coach outcome" where
  "gate x winrate iteration past s =
     (if gate_rejects (args s) winrate (gating_counter s) then
        (case ckpt_files s (checkpoint (args s), get_iter_file x past) of
           None \<Rightarrow> Raises FileNotFoundError s
         | Some w \<Rightarrow>
            let s1 = s\<lparr>nnet := w,
                       trace := trace s @ [NnetLoad (checkpoint (args s)) (get_iter_file x past)]\<rparr>
            in (case ckpt_files s1 (checkpoint (args s1), get_iter_file x iteration) of
                  None \<Rightarrow> Raises FileNotFoundError s1
                | Some _ \<Rightarrow>
                   Returns (s1\<lparr>ckpt_files :=
                                 (ckpt_files s1)((checkpoint (args s1), get_iter_file x iteration) := None),
                               trace := trace s1 @
                                 [OsRemove (checkpoint (args s1)) (get_iter_file x iteration)],
                               current_iter := past,
                               gating_counter := gating_counter s1 + 1\<rparr>)))
      else Returns (s\<lparr>gating_counter := 0\<rparr>))"

text \<open>
  \<open>compareToPast\<close> (lines 293--336).  The argument \<open>winrate\<close> is \<open>winrates[0]\<close> as returned
  by \<open>Arena.play_games\<close>.  Building the player objects has no effect on the coach.
\<close>

definition compareToPast :: "ext \<Rightarrow> real \<Rightarrow> int \<Rightarrow> coach \<Rightarrow> coach outcome" where
  "compareToPast x winrate iteration s =
     (let past = max 0 (iteration - pastCompareFreq (args s)) in
      case ckpt_files s (checkpoint (args s), get_iter_file x past) of
        None \<Rightarrow> Raises FileNotFoundError s
      | Some wp \<Rightarrow>
         let s1 = s\<lparr>pnet := wp,
                    trace := trace s @ [PnetLoad (checkpoint (args s)) (get_iter_file x past)]\<rparr>;
             play = (\<lambda>t. gate x winrate iteration past
                       (t\<lparr>trace := trace t @
                            [ArenaPlayGames (arenaBatched (args t)) (arenaCompare (args t))]\<rparr>))
         in if arenaBatched (args s1) then
              (if \<not> arenaMCTS (args s1) then
                 Raises UserWarning (s1\<lparr>args := (args s1)\<lparr>arenaMCTS := True\<rparr>\<rparr>)
               else play s1)
            else play s1)"

section \<open>Persisting and reloading samples\<close>

text \<open>
  Python's \<open>str.replace(old, new)\<close> for a non-empty \<open>old\<close>: occurrences are replaced
  from left to right without overlap.  The counter is the number of characters of a
  matched occurrence still to be skipped.
\<close>

fun replace_from :: "string \<Rightarrow> string \<Rightarrow> nat \<Rightarrow> string \<Rightarrow> string" where
  "replace_from old new k [] = []"
| "replace_from old new (Suc k) (c # cs) = replace_from old new k cs"
| "replace_from old new 0 (c # cs) =
     (if take (length old) (c # cs) = old
      then new @ replace_from old new (length old - 1) cs
      else c # replace_from old new 0 cs)"

definition str_replace :: "string \<Rightarrow> string \<Rightarrow> string \<Rightarrow> string" where
  "str_replace old new s = replace_from old new 0 s"

text \<open>The common prefix of the three files of a shard (lines 246 and 270).\<close>

definition shard_filename :: "ext \<Rightarrow> dotdict \<Rightarrow> int \<Rightarrow> string" where
  "shard_filename x a i = data a @ ''/'' @ str_replace ''.pkl'' [] (get_iter_file x i)"

text \<open>
  The loop of \<open>saveIterationSamples\<close> (lines 238--242): one blocking \<open>get\<close> per index,
  the three rows written at that index.  A \<open>get\<close> on an empty queue does not return.
\<close>

fun fill_rows ::
  "ext \<Rightarrow> nat list \<Rightarrow> sample list \<Rightarrow> dataset \<Rightarrow> (dataset \<times> sample list) option" where
  "fill_rows x [] q t = Some (t, q)"
| "fill_rows x (i # is) q (d, p, v) =
     (case q of
        [] \<Rightarrow> None
      | (dat, pol, val) # q' \<Rightarrow>
          fill_rows x is q'
            (d[i := map (f32 x) dat], p[i := map (f32 x) pol], v[i := (v ! i)[0 := f32 x val]]))"

text \<open>
  \<open>saveIterationSamples\<close> (lines 232--252); \<open>qsize\<close> is the length of the queue, so
  every index of the loop is a row of the three tensors.  Creating the directory is not
  modelled.
\<close>

definition saveIterationSamples :: "ext \<Rightarrow> int \<Rightarrow> coach \<Rightarrow> coach outcome" where
  "saveIterationSamples x iteration s =
     (let num_samples = length (file_queue s);
          data_tensor = replicate num_samples (replicate (observation_size x) 0);
          policy_tensor = replicate num_samples (replicate (action_size x) 0);
          value_tensor = replicate num_samples [0]
      in case fill_rows x [0..<num_samples] (file_queue s)
                (data_tensor, policy_tensor, value_tensor) of
           None \<Rightarrow> NoReturn
         | Some ((d, p, v), q) \<Rightarrow>
            let filename = shard_filename x (args s) iteration in
            Returns (s\<lparr>file_queue := q,
                       data_files := (data_files s)
                         (filename @ ''-data.pkl'' \<mapsto> d,
                          filename @ ''-policy.pkl'' \<mapsto> p,
                          filename @ ''-value.pkl'' \<mapsto> v),
                       trace := trace s @
                         [TorchSave (filename @ ''-data.pkl''),
                          TorchSave (filename @ ''-policy.pkl''),
                          TorchSave (filename @ ''-value.pkl'')]\<rparr>))"

section \<open>Training (\<open>Coach.train\<close>)\<close>

definition torch_load :: "string \<Rightarrow> coach \<Rightarrow> (tensor \<times> coach) outcome" where
  "torch_load f s =
     (case data_files s f of
        None \<Rightarrow> Raises FileNotFoundError s
      | Some t \<Rightarrow> Returns (t, s\<lparr>trace := trace s @ [TorchLoad f]\<rparr>))"

text \<open>\<open>TensorDataset\<close> asserts that its tensors have the same number of rows.\<close>

definition TensorDataset :: "tensor \<Rightarrow> tensor \<Rightarrow> tensor \<Rightarrow> error + dataset" where
  "TensorDataset d p v =
     (if length p = length d \<and> length v = length d then Inr (d, p, v) else Inl AssertionError)"



text \<open>The window size computed at lines 265--268.\<close>

definition currentHistorySize :: "dotdict \<Rightarrow> int \<Rightarrow> int" where
  "currentHistorySize a iteration =
     min (max 4 ((iteration + 4) div 2)) (numItersForTrainExamplesHistory a)"

text \<open>Python's \<open>range(a, b)\<close>.\<close>

definition py_range :: "int \<Rightarrow> int \<Rightarrow> int list" where
  "py_range a b = [a..b - 1]"

text \<open>The loading loop of \<open>train\<close> (lines 269--275) over the given iterations.\<close>

fun load_shards ::
  "ext \<Rightarrow> int list \<Rightarrow> dataset list \<Rightarrow> coach \<Rightarrow> (dataset list \<times> coach) outcome" where
  "load_shards x [] datasets s = Returns (datasets, s)"
| "load_shards x (i # is) datasets s =
     (let filename = shard_filename x (args s) i in
      bind (torch_load (filename @ ''-data.pkl'') s) (\<lambda>(d, s1).
      bind (torch_load (filename @ ''-policy.pkl'') s1) (\<lambda>(p, s2).
      bind (torch_load (filename @ ''-value.pkl'') s2) (\<lambda>(v, s3).
        case TensorDataset d p v of
          Inl e \<Rightarrow> Raises e s3
        | Inr ds \<Rightarrow> load_shards x is (datasets @ [ds]) s3))))"

text \<open>
  \<open>train\<close> (lines 262--291).  \<open>ConcatDataset\<close> asserts that it is given at least one
  dataset.  The parameters that \<open>nnet.train\<close> leaves in the network are the argument
  \<open>trained\<close>; they are then written as the checkpoint of the iteration.
\<close>

definition train :: "ext \<Rightarrow> weights \<Rightarrow> int \<Rightarrow> coach \<Rightarrow> coach outcome" where
  "train x trained iteration s =
     bind (load_shards x
             (py_range (max 1 (iteration - currentHistorySize (args s) iteration)) (iteration + 1))
             [] s)
       (\<lambda>(datasets, s1).
          if datasets = [] then Raises AssertionError s1
          else Returns (s1\<lparr>nnet := trained,
                          ckpt_files := (ckpt_files s1)
                            ((checkpoint (args s1), get_iter_file x iteration) \<mapsto> trained),
                          trace := trace s1 @
                            [NnetTrain (train_steps_per_iteration (args s1)),
                             NnetSave (checkpoint (args s1)) (get_iter_file x iteration)]\<rparr>))"

section \<open>Self-play phase\<close>

text \<open>
  \<open>generateSelfPlayAgents\<close> (lines 162--187): per worker, one zero tensor is appended to
  each list, a cleared event is appended and the agent is started.
\<close>

definition generateSelfPlayAgents :: "ext \<Rightarrow> coach \<Rightarrow> coach" where
  "generateSelfPlayAgents x s =
     foldl (\<lambda>t i. t\<lparr>input_tensors := input_tensors t @
                       [replicate (nat (process_batch_size (args t)))
                          (replicate (observation_size x) 0)],
                     policy_tensors := policy_tensors t @
                       [replicate (nat (process_batch_size (args t)))
                          (replicate (action_size x) 0)],
                     value_tensors := value_tensors t @
                       [replicate (nat (process_batch_size (args t))) [0]],
                     batch_ready := batch_ready t @ [False],
                     agents := agents t @ [i]\<rparr>)
       s [0..<nat (workers (args s))]"

text \<open>
  What the coordinator observes of the workers in one turn of the batching loop: the value
  of the shared counter \<open>completed\<close> at the loop test, what the workers have written into
  the shared input tensors since the previous turn, the result of
  \<open>ready_queue.get(timeout=1)\<close> (\<open>None\<close> for the exception \<open>Empty\<close>), and the value of
  the shared counter \<open>games_played\<close>.
\<close>

record obs =
  completed_value :: int
  worker_writes :: "(nat \<times> tensor) list"
  ready_get :: "nat option"
  games_played_value :: int

definition shared_write :: "tensor list \<Rightarrow> (nat \<times> tensor) list \<Rightarrow> tensor list" where
  "shared_write ts ws = foldl (\<lambda>us (i, t). us[i := t]) ts ws"

text \<open>
  The loop of \<open>processSelfPlayBatches\<close> (lines 195--211); \<open>n\<close> is the local progress
  count.  The progress bar and the timing are not modelled.
\<close>

fun batch_loop :: "ext \<Rightarrow> obs list \<Rightarrow> int \<Rightarrow> coach \<Rightarrow> coach outcome" where
  "batch_loop x [] n s = NoReturn"
| "batch_loop x (ob # os) n s =
     (if completed_value ob \<noteq> workers (args s) then
        (let s0 = s\<lparr>input_tensors := shared_write (input_tensors s) (worker_writes ob)\<rparr>;
             n' = (if games_played_value ob > n then games_played_value ob else n)
         in case ready_get ob of
              None \<Rightarrow> batch_loop x os n' s0
            | Some wid \<Rightarrow>
               if wid < length (input_tensors s0) then
                 (let (policy, val) = nnet_process x (nnet s0) (input_tensors s0 ! wid);
                      s1 = s0\<lparr>trace := trace s0 @ [NnetProcess wid]\<rparr>
                  in if wid < length (policy_tensors s1) then
                       (let s2 = s1\<lparr>policy_tensors := (policy_tensors s1)[wid := policy]\<rparr>
                        in if wid < length (value_tensors s2) then
                             (let s3 = s2\<lparr>value_tensors := (value_tensors s2)[wid := val]\<rparr>
                              in if wid < length (batch_ready s3) then
                                   batch_loop x os n'
                                     (s3\<lparr>batch_ready := (batch_ready s3)[wid := True],
                                         trace := trace s3 @ [BatchReadySet wid]\<rparr>)
                                 else Raises IndexError s3)
                           else Raises IndexError s2)
                     else Raises IndexError s1)
               else Raises IndexError s0)
      else Returns s)"

definition processSelfPlayBatches :: "ext \<Rightarrow> obs list \<Rightarrow> coach \<Rightarrow> coach outcome" where
  "processSelfPlayBatches x os s = batch_loop x os 0 s"

text \<open>
  \<open>processGameResults\<close> (lines 254--260) only reports metrics, but it divides by the
  number of queued results.
\<close>

definition processGameResults :: "nat \<Rightarrow> int \<Rightarrow> coach \<Rightarrow> coach outcome" where
  "processGameResults num_games iteration s =
     (if num_games = 0 then Raises ZeroDivisionError s else Returns s)"

text \<open>
  \<open>killSelfPlayAgents\<close> (lines 216--230): per worker, the agent is joined and the head of
  each list is deleted; then all lists are reset.
\<close>

fun kill_loop :: "nat list \<Rightarrow> coach \<Rightarrow> coach outcome" where
  "kill_loop [] s = Returns s"
| "kill_loop (i # is) s =
     (if i < length (agents s) then
        (case input_tensors s of
           [] \<Rightarrow> Raises IndexError s
         | _ # its \<Rightarrow>
            let s1 = s\<lparr>input_tensors := its\<rparr> in
            (case policy_tensors s1 of
               [] \<Rightarrow> Raises IndexError s1
             | _ # pts \<Rightarrow>
                let s2 = s1\<lparr>policy_tensors := pts\<rparr> in
                (case value_tensors s2 of
                   [] \<Rightarrow> Raises IndexError s2
                 | _ # vts \<Rightarrow>
                    let s3 = s2\<lparr>value_tensors := vts\<rparr> in
                    (case batch_ready s3 of
                       [] \<Rightarrow> Raises IndexError s3
                     | _ # brs \<Rightarrow> kill_loop is (s3\<lparr>batch_ready := brs\<rparr>)))))
      else Raises IndexError s)"

definition killSelfPlayAgents :: "coach \<Rightarrow> coach outcome" where
  "killSelfPlayAgents s =
     bind (kill_loop [0..<nat (workers (args s))] s)
       (\<lambda>t. Returns (t\<lparr>agents := [], input_tensors := [], policy_tensors := [],
                        value_tensors := [], batch_ready := []\<rparr>))"

section \<open>The training loop (\<open>Coach.learn\<close>)\<close>

text \<open>\<open>compareToRandom\<close> (lines 338--354) plays arena games and reports the result.\<close>

definition compareToRandom :: "int \<Rightarrow> coach \<Rightarrow> coach outcome" where
  "compareToRandom iteration s =
     Returns (s\<lparr>trace := trace s @ [ArenaRandomGames (arenaCompareRandom (args s))]\<rparr>)"

text \<open>
  What the collaborators contribute to one iteration of \<open>learn\<close>: the observations of
  the batching loop, the samples that the workers have put on \<open>file_queue\<close> when the
  batching loop ends, the number of queued game results, the parameters left by
  \<open>nnet.train\<close>, and the win rate of the new network against the past one.
\<close>

record env =
  batch_obs :: "obs list"
  produced_samples :: "sample list"
  num_games :: nat
  trained_weights :: weights
  past_winrate :: real

text \<open>
  The first part of the body of the \<open>while\<close> loop of \<open>learn\<close> (lines 125--146), for
  the local counter \<open>const_i\<close>: warm-up flag, self-play, training and the comparison with
  the random player.  The operator \<open>%\<close> raises on a zero divisor and is only evaluated
  when the conjuncts before it hold.
\<close>

definition learn_produce :: "ext \<Rightarrow> env \<Rightarrow> int \<Rightarrow> coach \<Rightarrow> coach outcome" where
  "learn_produce x e const_i s =
     (let i = current_iter s;
          s1 = (if const_i \<le> numWarmupIters (args s) then s\<lparr>warmup := True\<rparr>
                else if warmup s then s\<lparr>warmup := False\<rparr> else s)
      in
      bind (if const_i > skipSelfPlayIters (args s1) then
              bind (processSelfPlayBatches x (batch_obs e) (generateSelfPlayAgents x s1)) (\<lambda>s2.
              bind (saveIterationSamples x i
                      (s2\<lparr>file_queue := file_queue s2 @ produced_samples e\<rparr>)) (\<lambda>s3.
              bind (processGameResults (num_games e) const_i s3) (\<lambda>s4.
              killSelfPlayAgents s4)))
            else Returns s1) (\<lambda>s5.
      bind (train x (trained_weights e) i s5) (\<lambda>s6.
      if \<not> warmup s6 \<and> compareWithRandom (args s6) then
        (if randomCompareFreq (args s6) = 0 then Raises ZeroDivisionError s6
         else if (const_i - 1) mod randomCompareFreq (args s6) = 0
              then compareToRandom i s6 else Returns s6)
      else Returns s6)))"

text \<open>
  The body of the \<open>while\<close> loop of \<open>learn\<close> (lines 125--158): the first part, then the
  comparison with the past network for \<open>i\<close>, the value of \<open>current_iter\<close> at the start of
  the body (lines 148--149), the expert value weight (lines 151--153) and the two
  increments (lines 156--157).  It returns the coach and the new value of \<open>const_i\<close>.
\<close>

definition learn_body :: "ext \<Rightarrow> env \<Rightarrow> int \<Rightarrow> coach \<Rightarrow> (coach \<times> int) outcome" where
  "learn_body x e const_i s =
     (let i = current_iter s in
      bind (learn_produce x e const_i s) (\<lambda>s7.
      bind (if \<not> warmup s7 \<and> compareWithPast (args s7) then
              (if pastCompareFreq (args s7) = 0 then Raises ZeroDivisionError s7
               else if (const_i - 1) mod pastCompareFreq (args s7) = 0
                    then compareToPast x (past_winrate e) i s7 else Returns s7)
            else Returns s7) (\<lambda>s8.
      if ev_iterations (args s8) = 0 then Raises ZeroDivisionError s8
      else Returns
             (s8\<lparr>args := (args s8)\<lparr>ev_current :=
                     real_of_int (min const_i (ev_iterations (args s8)))
                       / real_of_int (ev_iterations (args s8))
                       * (ev_end (args s8) - ev_start (args s8)) + ev_start (args s8)\<rparr>,
                 current_iter := current_iter s8 + 1\<rparr>,
              const_i + 1))))"

text \<open>
  The \<open>while\<close> loop of \<open>learn\<close> (line 124), one element of the list per iteration that
  the collaborators take part in.
\<close>

fun learn_loop :: "ext \<Rightarrow> env list \<Rightarrow> int \<Rightarrow> coach \<Rightarrow> coach outcome" where
  "learn_loop x [] const_i s =
     (if current_iter s \<le> numIters (args s) then NoReturn else Returns s)"
| "learn_loop x (e # es) const_i s =
     (if current_iter s \<le> numIters (args s) then
        bind (learn_body x e const_i s) (\<lambda>(s', c'). learn_loop x es c' s')
      else Returns s)"

definition learn :: "ext \<Rightarrow> env list \<Rightarrow> coach \<Rightarrow> coach outcome" where
  "learn x es s = learn_loop x es (startIter (args s)) s"

section \<open>Notions used to state the properties\<close>

text \<open>The value a call returns, and the coach a call leaves behind when it ends.\<close>

definition returned :: "'a outcome \<Rightarrow> 'a option" where
  "returned r = (case r of Returns v \<Rightarrow> Some v | Raises e s \<Rightarrow> None | NoReturn \<Rightarrow> None)"




text \<open>
  The window size in the words of the specification,
  \<open>clamp(4, (iteration+4)//2, numItersForTrainExamplesHistory)\<close>: the middle value,
  raised to the lower bound and then cut at the upper bound.
\<close>

definition clamp :: "int \<Rightarrow> int \<Rightarrow> int \<Rightarrow> int" where
  "clamp lo v hi = min (max lo v) hi"

text \<open>The three files of the shard of an iteration, in the order in which they are read.\<close>

definition shard_files :: "ext \<Rightarrow> dotdict \<Rightarrow> int \<Rightarrow> string list" where
  "shard_files x a i =
     [shard_filename x a i @ ''-data.pkl'',
      shard_filename x a i @ ''-policy.pkl'',
      shard_filename x a i @ ''-value.pkl'']"

text \<open>
  The batcher in the words of the specification (section 4.1, steps 2 and 3).  Serving a
  notification: the evaluation function is invoked once on the slot's input, the results
  are copied into the slot's outputs, and the slot's completion event is signalled.  One
  turn: a notification is served, a timeout does nothing.
\<close>

definition serve :: "ext \<Rightarrow> nat \<Rightarrow> coach \<Rightarrow> coach" where
  "serve x wid s =
     s\<lparr>policy_tensors :=
          (policy_tensors s)[wid := fst (nnet_process x (nnet s) (input_tensors s ! wid))],
       value_tensors :=
          (value_tensors s)[wid := snd (nnet_process x (nnet s) (input_tensors s ! wid))],
       batch_ready := (batch_ready s)[wid := True],
       trace := trace s @ [NnetProcess wid, BatchReadySet wid]\<rparr>"

definition batcher_turn :: "ext \<Rightarrow> coach \<Rightarrow> obs \<Rightarrow> coach" where
  "batcher_turn x s ob =
     (let s0 = s\<lparr>input_tensors := shared_write (input_tensors s) (worker_writes ob)\<rparr>
      in case ready_get ob of None \<Rightarrow> s0 | Some wid \<Rightarrow> serve x wid s0)"

definition turn_events :: "obs \<Rightarrow> event list" where
  "turn_events ob =
     (case ready_get ob of None \<Rightarrow> [] | Some wid \<Rightarrow> [NnetProcess wid, BatchReadySet wid])"

text \<open>The turns of the batching loop before the counter \<open>completed\<close> shows \<open>w\<close>.\<close>

definition turns_before_done :: "int \<Rightarrow> obs list \<Rightarrow> obs list" where
  "turns_before_done w os = takeWhile (\<lambda>ob. completed_value ob \<noteq> w) os"

section \<open>Concrete configurations\<close>

text \<open>\<open>DEFAULT_ARGS\<close> (lines 19--72) on a machine with the given number of processors.\<close>

definition DEFAULT_ARGS :: "int \<Rightarrow> dotdict" where
  "DEFAULT_ARGS cpu_count =
     \<lparr>workers = cpu_count, startIter = 0, numIters = 1000, process_batch_size = 128,
      train_steps_per_iteration = 512, gamesPerIteration = 512,
      numItersForTrainExamplesHistory = 10, numWarmupIters = 1, skipSelfPlayIters = 0,
      compareWithRandom = True, arenaCompareRandom = 16, arenaCompare = 32 * 4,
      arenaMCTS = True, arenaBatched = True, randomCompareFreq = 1,
      compareWithPast = True, pastCompareFreq = 1, model_gating = True,
      max_gating_iters = 3, min_next_model_winrate = 0.52,
      ev_start = 0, ev_end = 0, ev_iterations = 35, ev_current = 0,
      checkpoint = ''checkpoint/hnefatafl_run2'', data = ''data/hnefatafl_run2''\<rparr>"

text \<open>
  An instance of the collaborators: iteration files named by four decimal digits, exact
  rounding, a network that answers every position with the uniform policy over two
  actions and the value \<open>0\<close>.
\<close>

definition iter_file_04d :: "int \<Rightarrow> string" where
  "iter_file_04d i =
     ''iteration-'' @
     [''0123456789'' ! nat (i div 1000 mod 10), ''0123456789'' ! nat (i div 100 mod 10),
      ''0123456789'' ! nat (i div 10 mod 10), ''0123456789'' ! nat (i mod 10)] @ ''.pkl''"

definition scenario_ext :: ext where
  "scenario_ext =
     \<lparr>get_iter_file = iter_file_04d, f32 = (\<lambda>r. r),
      nnet_process = (\<lambda>w t. (map (\<lambda>r. [1 / 2, 1 / 2]) t, map (\<lambda>r. [0]) t)),
      observation_size = 2, action_size = 2\<rparr>"

text \<open>
  The default configuration with one worker and batches of one position, and a coach at
  the start of iteration 2 of such a run: the checkpoints of iterations 0 and 1 and the
  shard of iteration 1 are stored, the network holds the checkpoint of iteration 1.
\<close>

definition scenario_args :: dotdict where
  "scenario_args = (DEFAULT_ARGS 1)\<lparr>process_batch_size := 1\<rparr>"

definition scenario_coach :: "dotdict \<Rightarrow> int \<Rightarrow> coach" where
  "scenario_coach a gc =
     \<lparr>args = a, current_iter = 2, gating_counter = gc, warmup = False,
      nnet = 11, pnet = 11, agents = [], input_tensors = [], policy_tensors = [],
      value_tensors = [], batch_ready = [], file_queue = [],
      ckpt_files = [(checkpoint a, iter_file_04d 0) \<mapsto> 10,
                    (checkpoint a, iter_file_04d 1) \<mapsto> 11],
      data_files = [shard_filename scenario_ext a 1 @ ''-data.pkl'' \<mapsto> [[0, 1]],
                    shard_filename scenario_ext a 1 @ ''-policy.pkl'' \<mapsto> [[1 / 2, 1 / 2]],
                    shard_filename scenario_ext a 1 @ ''-value.pkl'' \<mapsto> [[1]]],
      trace = []\<rparr>"

text \<open>
  The workers' part in that iteration: one evaluation request, one idle second, then
  the worker has finished; one sample and one game result; and the win rate against the
  past network as given.
\<close>

definition scenario_obs :: "obs list" where
  "scenario_obs =
     [\<lparr>completed_value = 0, worker_writes = [(0, [[1, 0]])], ready_get = Some 0,
       games_played_value = 0\<rparr>,
      \<lparr>completed_value = 0, worker_writes = [], ready_get = None, games_played_value = 1\<rparr>,
      \<lparr>completed_value = 1, worker_writes = [], ready_get = None, games_played_value = 1\<rparr>]"

definition scenario_env :: "real \<Rightarrow> env" where
  "scenario_env winrate =
     \<lparr>batch_obs = scenario_obs, produced_samples = [([1, 0], [1 / 2, 1 / 2], - 1)],
      num_games = 1, trained_weights = 12, past_winrate = winrate\<rparr>"

text \<open>
  A coach for a run of the gating logic alone: \<open>max_gating_iters = 1\<close>, and the
  checkpoints of iterations 0, 1 and 2 stored; two calls of \<open>compareToPast\<close> for
  iteration 2 that each find the coach in this state and lose with a win rate of
  \<open>0.40\<close>.  And a coach whose configuration sets \<open>max_gating_iters\<close> to \<open>0\<close>.
\<close>

definition retry_once_coach :: coach where
  "retry_once_coach =
     (scenario_coach (scenario_args\<lparr>max_gating_iters := 1\<rparr>) 0)
       \<lparr>ckpt_files := (ckpt_files (scenario_coach scenario_args 0))
          ((checkpoint scenario_args, iter_file_04d 2) \<mapsto> 12)\<rparr>"


definition ungated_coach :: coach where
  "ungated_coach = scenario_coach (scenario_args\<lparr>max_gating_iters := 0\<rparr>) 0"

text \<open>
  The coach of the scenario with the shard of iteration 2 stored as well, ready for
  \<open>train(2)\<close>; and with two samples waiting on \<open>file_queue\<close>, ready for
  \<open>saveIterationSamples(2)\<close>.
\<close>

definition shards_ready_coach :: coach where
  "shards_ready_coach =
     (scenario_coach scenario_args 0)
       \<lparr>data_files := (data_files (scenario_coach scenario_args 0))
          (shard_filename scenario_ext scenario_args 2 @ ''-data.pkl'' \<mapsto> [[1, 0]],
           shard_filename scenario_ext scenario_args 2 @ ''-policy.pkl'' \<mapsto> [[1 / 2, 1 / 2]],
           shard_filename scenario_ext scenario_args 2 @ ''-value.pkl'' \<mapsto> [[- 1]])\<rparr>"


text \<open>
  What the phases before the comparison with the past network leave untouched: the
  configuration, the two counters, the warm-up flag, the network and the checkpoints.
\<close>

definition keeps :: "coach \<Rightarrow> coach \<Rightarrow> bool" where
  "keeps s t \<longleftrightarrow>
     args t = args s \<and> current_iter t = current_iter s \<and> gating_counter t = gating_counter s
     \<and> ckpt_files t = ckpt_files s \<and> nnet t = nnet s \<and> warmup t = warmup s"

section \<open>Basic facts\<close>

lemma bind_simps [simp]:
  "bind (Returns v) f = f v" "bind (Raises e s) f = Raises e s" "bind NoReturn f = NoReturn"
  by (simp_all add: bind_def)

lemma bind_Returns_iff:
  "bind r f = Returns v \<longleftrightarrow> (\<exists>u. r = Returns u \<and> f u = Returns v)"
  by (cases r) simp_all

lemma keeps_refl [simp]: "keeps s s"
  by (simp add: keeps_def)

lemma keeps_trans: "keeps s t \<Longrightarrow> keeps t u \<Longrightarrow> keeps s u"
  by (simp add: keeps_def)

lemmas scenario_defs = scenario_coach_def scenario_args_def DEFAULT_ARGS_def
  scenario_ext_def iter_file_04d_def shard_filename_def scenario_env_def scenario_obs_def

lemma scenario_facts:
  "args (scenario_coach scenario_args gc) = scenario_args"
  "current_iter (scenario_coach scenario_args gc) = 2"
  "gating_counter (scenario_coach scenario_args gc) = gc"
  "numWarmupIters scenario_args = 1" "compareWithPast scenario_args"
  "pastCompareFreq scenario_args = 1" "arenaMCTS scenario_args" "arenaBatched scenario_args"
  "model_gating scenario_args" "max_gating_iters scenario_args = 3"
  "min_next_model_winrate scenario_args = 0.52" "ev_iterations scenario_args = 35"
  "past_winrate (scenario_env w) = w" "get_iter_file scenario_ext = iter_file_04d"
  by (simp_all add: scenario_coach_def scenario_args_def DEFAULT_ARGS_def scenario_env_def
      scenario_ext_def)

subsection \<open>The gating block and the comparison\<close>

lemma gate_accepts:
  "\<not> gate_rejects (args s) w (gating_counter s) \<Longrightarrow>
   gate x w i p s = Returns (s\<lparr>gating_counter := 0\<rparr>)"
  by (simp add: gate_def)

lemma gate_rejects_Returns:
  assumes "gate_rejects (args s) w (gating_counter s)"
    and "ckpt_files s (checkpoint (args s), get_iter_file x p) = Some wp"
    and "ckpt_files s (checkpoint (args s), get_iter_file x i) = Some wi"
  shows "gate x w i p s =
     Returns (s\<lparr>nnet := wp,
                ckpt_files := (ckpt_files s)((checkpoint (args s), get_iter_file x i) := None),
                trace := trace s @ [NnetLoad (checkpoint (args s)) (get_iter_file x p),
                                    OsRemove (checkpoint (args s)) (get_iter_file x i)],
                current_iter := p,
                gating_counter := gating_counter s + 1\<rparr>)"
  using assms by (simp add: gate_def Let_def)

lemma compareToPast_plays:
  assumes "arenaBatched (args s) \<longrightarrow> arenaMCTS (args s)"
    and "ckpt_files s (checkpoint (args s),
           get_iter_file x (max 0 (i - pastCompareFreq (args s)))) = Some wp"
  shows "compareToPast x w i s =
     gate x w i (max 0 (i - pastCompareFreq (args s)))
       (s\<lparr>pnet := wp,
          trace := trace s @
            [PnetLoad (checkpoint (args s))
               (get_iter_file x (max 0 (i - pastCompareFreq (args s)))),
             ArenaPlayGames (arenaBatched (args s)) (arenaCompare (args s))]\<rparr>)"
  using assms by (simp add: compareToPast_def Let_def)



subsection \<open>What the phases before the comparison preserve\<close>

lemma generate_keeps_aux:
  "keeps s (foldl (\<lambda>t i. t\<lparr>input_tensors := input_tensors t @ [f t],
                     policy_tensors := policy_tensors t @ [g t],
                     value_tensors := value_tensors t @ [h t],
                     batch_ready := batch_ready t @ [False],
                     agents := agents t @ [i]\<rparr>) s is)"
proof (induction "is" arbitrary: s)
  case Nil
  show ?case by simp
next
  case (Cons i "is")
  have "keeps s (s\<lparr>input_tensors := input_tensors s @ [f s],
                     policy_tensors := policy_tensors s @ [g s],
                     value_tensors := value_tensors s @ [h s],
                     batch_ready := batch_ready s @ [False],
                     agents := agents s @ [i]\<rparr>)"
    by (simp add: keeps_def)
  from keeps_trans[OF this Cons.IH] show ?case by simp
qed

lemma generateSelfPlayAgents_keeps: "keeps s (generateSelfPlayAgents x s)"
  unfolding generateSelfPlayAgents_def by (rule generate_keeps_aux)

lemma batch_loop_keeps: "batch_loop x os n s = Returns t \<Longrightarrow> keeps s t"
proof (induction os arbitrary: n s)
  case Nil
  then show ?case by simp
next
  case (Cons ob os)
  show ?case
  proof (cases "completed_value ob = workers (args s)")
    case True
    with Cons.prems show ?thesis by simp
  next
    case False
    with Cons.prems show ?thesis
      by (auto simp: Let_def keeps_def split: option.splits if_splits prod.splits
               dest!: Cons.IH)
  qed
qed

lemma saveIterationSamples_keeps: "saveIterationSamples x i s = Returns t \<Longrightarrow> keeps s t"
  by (auto simp: saveIterationSamples_def Let_def keeps_def split: option.splits prod.splits)

lemma kill_loop_keeps: "kill_loop is s = Returns t \<Longrightarrow> keeps s t"
proof (induction "is" arbitrary: s)
  case Nil
  then show ?case by simp
next
  case (Cons i "is")
  from Cons.prems show ?case
    by (auto simp: Let_def keeps_def split: if_splits list.splits dest!: Cons.IH)
qed

lemma killSelfPlayAgents_keeps: "killSelfPlayAgents s = Returns t \<Longrightarrow> keeps s t"
  by (auto simp: killSelfPlayAgents_def bind_Returns_iff keeps_def dest!: kill_loop_keeps)

lemma load_shards_Cons_Returns:
  assumes "load_shards x (i # is) ds s = Returns r"
  shows "\<exists>d p v. data_files s (shard_filename x (args s) i @ ''-data.pkl'') = Some d
           \<and> data_files s (shard_filename x (args s) i @ ''-policy.pkl'') = Some p
           \<and> data_files s (shard_filename x (args s) i @ ''-value.pkl'') = Some v
           \<and> length p = length d \<and> length v = length d
           \<and> load_shards x is (ds @ [(d, p, v)])
                (s\<lparr>trace := trace s @ map TorchLoad (shard_files x (args s) i)\<rparr>) = Returns r"
  using assms
  by (simp add: Let_def torch_load_def TensorDataset_def shard_files_def
           split: option.splits if_splits)

lemma load_shards_keeps:
  "load_shards x is ds s = Returns (ds', t) \<Longrightarrow> keeps s t \<and> data_files t = data_files s"
proof (induction "is" arbitrary: ds s)
  case Nil
  then show ?case by simp
next
  case (Cons i "is")
  from load_shards_Cons_Returns[OF Cons.prems] obtain d p v where
    "load_shards x is (ds @ [(d, p, v)])
       (s\<lparr>trace := trace s @ map TorchLoad (shard_files x (args s) i)\<rparr>) = Returns (ds', t)"
    by blast
  from Cons.IH[OF this] show ?case by (simp add: keeps_def)
qed

lemma train_Returns:
  assumes "train x w i s = Returns t"
  shows "args t = args s" "current_iter t = current_iter s"
    "gating_counter t = gating_counter s"
    "ckpt_files t = (ckpt_files s)((checkpoint (args s), get_iter_file x i) \<mapsto> w)"
    "warmup t = warmup s"
  using assms
  by (auto simp: train_def bind_Returns_iff keeps_def split: if_splits dest!: load_shards_keeps)

lemma learn_produce_Returns:
  assumes "learn_produce x e c s = Returns t"
  shows "args t = args s" "current_iter t = current_iter s"
    "gating_counter t = gating_counter s"
    "ckpt_files t = (ckpt_files s)
       ((checkpoint (args s), get_iter_file x (current_iter s)) \<mapsto> trained_weights e)"
    "warmup t = (c \<le> numWarmupIters (args s))"
proof -
  define s1 where "s1 = (if c \<le> numWarmupIters (args s) then s\<lparr>warmup := True\<rparr>
                else if warmup s then s\<lparr>warmup := False\<rparr> else s)"
  have s1: "keeps s (s1\<lparr>warmup := warmup s\<rparr>)" "warmup s1 = (c \<le> numWarmupIters (args s))"
    by (auto simp: s1_def keeps_def)
  from assms obtain s5 s6 where
    sp: "(if c > skipSelfPlayIters (args s1) then
              bind (processSelfPlayBatches x (batch_obs e) (generateSelfPlayAgents x s1)) (\<lambda>s2.
              bind (saveIterationSamples x (current_iter s)
                      (s2\<lparr>file_queue := file_queue s2 @ produced_samples e\<rparr>)) (\<lambda>s3.
              bind (processGameResults (num_games e) c s3) (\<lambda>s4.
              killSelfPlayAgents s4)))
            else Returns s1) = Returns s5"
    and tr: "train x (trained_weights e) (current_iter s) s5 = Returns s6"
    and cr: "(if \<not> warmup s6 \<and> compareWithRandom (args s6) then
        (if randomCompareFreq (args s6) = 0 then Raises ZeroDivisionError s6
         else if (c - 1) mod randomCompareFreq (args s6) = 0
              then compareToRandom (current_iter s) s6 else Returns s6)
      else Returns s6) = Returns t"
    unfolding learn_produce_def Let_def s1_def[symmetric] bind_Returns_iff by blast
  have k5: "keeps s1 s5"
  proof (cases "c > skipSelfPlayIters (args s1)")
    case False
    with sp show ?thesis by simp
  next
    case True
    with sp obtain s2 s3 s4 where
      a: "batch_loop x (batch_obs e) 0 (generateSelfPlayAgents x s1) = Returns s2"
      and b: "saveIterationSamples x (current_iter s)
                (s2\<lparr>file_queue := file_queue s2 @ produced_samples e\<rparr>) = Returns s3"
      and c: "processGameResults (num_games e) c s3 = Returns s4"
      and d: "killSelfPlayAgents s4 = Returns s5"
      by (auto simp: bind_Returns_iff processSelfPlayBatches_def)
    from c have "s4 = s3" by (simp add: processGameResults_def split: if_splits)
    with generateSelfPlayAgents_keeps[of s1 x] batch_loop_keeps[OF a]
      saveIterationSamples_keeps[OF b] killSelfPlayAgents_keeps[OF d]
    show ?thesis by (simp add: keeps_def)
  qed
  from cr have t: "keeps s6 t"
    by (auto simp: compareToRandom_def keeps_def split: if_splits)
  from s1 k5 train_Returns[OF tr] t
  show "args t = args s" "current_iter t = current_iter s"
    "gating_counter t = gating_counter s"
    "ckpt_files t = (ckpt_files s)
       ((checkpoint (args s), get_iter_file x (current_iter s)) \<mapsto> trained_weights e)"
    "warmup t = (c \<le> numWarmupIters (args s))"
    by (simp_all add: keeps_def)
qed

subsection \<open>One iteration of \<open>learn\<close> around the comparison\<close>

lemma learn_body_compares:
  assumes prod: "learn_produce x e const_i s = Returns s7"
    and reach: "numWarmupIters (args s) < const_i" "compareWithPast (args s)"
      "pastCompareFreq (args s) \<noteq> 0" "(const_i - 1) mod pastCompareFreq (args s) = 0"
    and cmp: "compareToPast x (past_winrate e) (current_iter s) s7 = Returns s8"
    and ev: "ev_iterations (args s8) \<noteq> 0"
  shows "learn_body x e const_i s =
     Returns (s8\<lparr>args := (args s8)\<lparr>ev_current :=
                     real_of_int (min const_i (ev_iterations (args s8)))
                       / real_of_int (ev_iterations (args s8))
                       * (ev_end (args s8) - ev_start (args s8)) + ev_start (args s8)\<rparr>,
                 current_iter := current_iter s8 + 1\<rparr>,
              const_i + 1)"
  using reach cmp ev learn_produce_Returns(1,5)[OF prod]
  by (simp add: learn_body_def prod Let_def)

lemma learn_body_accepts:
  assumes prod: "learn_produce x e const_i s = Returns s7"
    and reach: "numWarmupIters (args s) < const_i" "compareWithPast (args s)"
      "pastCompareFreq (args s) \<noteq> 0" "(const_i - 1) mod pastCompareFreq (args s) = 0"
    and cfg: "arenaBatched (args s) \<longrightarrow> arenaMCTS (args s)"
    and past: "ckpt_files s7 (checkpoint (args s),
           get_iter_file x (max 0 (current_iter s - pastCompareFreq (args s)))) = Some wp"
    and acc: "\<not> gate_rejects (args s) (past_winrate e) (gating_counter s)"
    and ev: "ev_iterations (args s) \<noteq> 0"
  shows "\<exists>s8 s'. compareToPast x (past_winrate e) (current_iter s) s7 = Returns s8
           \<and> current_iter s8 = current_iter s \<and> gating_counter s8 = 0
           \<and> learn_body x e const_i s = Returns (s', const_i + 1)
           \<and> current_iter s' = current_iter s + 1 \<and> gating_counter s' = 0
           \<and> nnet s' = nnet s7 \<and> ckpt_files s' = ckpt_files s7"
proof -
  note p = learn_produce_Returns[OF prod]
  define s8 where "s8 = s7\<lparr>pnet := wp,
          trace := trace s7 @
            [PnetLoad (checkpoint (args s7))
               (get_iter_file x (max 0 (current_iter s - pastCompareFreq (args s7)))),
             ArenaPlayGames (arenaBatched (args s7)) (arenaCompare (args s7))],
          gating_counter := 0\<rparr>"
  have cmp: "compareToPast x (past_winrate e) (current_iter s) s7 = Returns s8"
    using cfg past acc p(1,3)
    by (subst compareToPast_plays[where wp = wp]) (simp_all add: gate_accepts s8_def)
  have ev8: "ev_iterations (args s8) \<noteq> 0" using ev p(1) by (simp add: s8_def)
  from learn_body_compares[OF prod reach cmp ev8] cmp p(2)
  show ?thesis by (simp add: s8_def)
qed

lemma scenario_produce:
  "\<exists>s7. learn_produce scenario_ext (scenario_env w) 2 (scenario_coach scenario_args gc)
          = Returns s7
     \<and> ckpt_files s7 (checkpoint scenario_args, iter_file_04d 1) = Some 11"
  by (simp add: scenario_defs learn_produce_def processSelfPlayBatches_def
      generateSelfPlayAgents_def saveIterationSamples_def processGameResults_def
      killSelfPlayAgents_def train_def compareToRandom_def currentHistorySize_def py_range_def
      torch_load_def TensorDataset_def shared_write_def str_replace_def Let_def upto.simps)

section \<open>Configuration error in the batched arena\<close>

text \<open>
  Claim C1: with \<open>arenaBatched\<close> set and \<open>arenaMCTS\<close> unset, the error is meant to be
  reported as a warning and corrected, and the arena games against the past network are
  meant to be played.  The code sets \<open>arenaMCTS\<close> and then raises the warning class as an
  exception: in the scenario with \<open>arenaMCTS\<close> unset, \<open>compareToPast\<close> for iteration 2
  ends with \<open>UserWarning\<close> after loading the past network; the flag has been set, and no
  arena game has been played.
\<close>

theorem compareToPast_batched_without_mcts_raises:
  "compareToPast scenario_ext 0.40 2 (scenario_coach (scenario_args\<lparr>arenaMCTS := False\<rparr>) 0)
   = Raises UserWarning
       ((scenario_coach (scenario_args\<lparr>arenaMCTS := True\<rparr>) 0)
          \<lparr>pnet := 11,
           trace := [PnetLoad ''checkpoint/hnefatafl_run2'' ''iteration-0001.pkl'']\<rparr>)"
  by (simp add: compareToPast_def scenario_defs Let_def)

section \<open>The bound on the gating counter\<close>



section \<open>A zero \<open>max_gating_iters\<close>\<close>

text \<open>
  Claim C10: the rejection branch also requires \<open>max_gating_iters\<close> to be truthy.  When
  model gating is enabled, the win rate is below \<open>min_next_model_winrate\<close> and
  \<open>max_gating_iters\<close> is \<open>0\<close>, a call of \<open>compareToPast\<close> that gets to the gating decision
  (the flags are consistent and the past checkpoint can be loaded) takes the accept
  branch: the new model is kept, no checkpoint is reloaded into the network or deleted,
  and \<open>gating_counter\<close> is reset to \<open>0\<close>.
\<close>

theorem zero_max_gating_iters_accepts:
  assumes "model_gating (args s)"
    and "winrate < min_next_model_winrate (args s)"
    and "max_gating_iters (args s) = 0"
    and "arenaBatched (args s) \<longrightarrow> arenaMCTS (args s)"
    and "ckpt_files s (checkpoint (args s),
           get_iter_file x (max 0 (iteration - pastCompareFreq (args s)))) = Some wp"
  shows "\<not> gate_rejects (args s) winrate (gating_counter s)
       \<and> compareToPast x winrate iteration s =
           Returns (s\<lparr>pnet := wp,
                      trace := trace s @
                        [PnetLoad (checkpoint (args s))
                           (get_iter_file x (max 0 (iteration - pastCompareFreq (args s)))),
                         ArenaPlayGames (arenaBatched (args s)) (arenaCompare (args s))],
                      gating_counter := 0\<rparr>)"
proof -
  from assms(3) have n: "\<not> gate_rejects (args s) winrate (gating_counter s)"
    by (simp add: gate_rejects_def)
  then show ?thesis
    by (simp add: compareToPast_plays[OF assms(4,5)] gate_accepts gate_rejects_def)
qed

theorem zero_max_gating_iters_accepts_witness:
  "model_gating (args ungated_coach)
   \<and> (0.40::real) < min_next_model_winrate (args ungated_coach)
   \<and> max_gating_iters (args ungated_coach) = 0
   \<and> arenaMCTS (args ungated_coach)
   \<and> ckpt_files ungated_coach (checkpoint (args ungated_coach), get_iter_file scenario_ext 1)
       = Some 11
   \<and> compareToPast scenario_ext 0.40 2 ungated_coach =
       Returns (ungated_coach\<lparr>pnet := 11,
                  trace := [PnetLoad ''checkpoint/hnefatafl_run2'' ''iteration-0001.pkl'',
                            ArenaPlayGames True 128],
                  gating_counter := 0\<rparr>)"
proof -
  have h1: "model_gating (args ungated_coach)"
    and h2: "(0.40::real) < min_next_model_winrate (args ungated_coach)"
    and h3: "max_gating_iters (args ungated_coach) = 0"
    and h4: "arenaBatched (args ungated_coach) \<longrightarrow> arenaMCTS (args ungated_coach)"
    and h5: "ckpt_files ungated_coach (checkpoint (args ungated_coach),
           get_iter_file scenario_ext (max 0 (2 - pastCompareFreq (args ungated_coach))))
         = Some 11"
    by (simp_all add: ungated_coach_def scenario_defs)
  from zero_max_gating_iters_accepts[OF h1 h2 h3 h4 h5] h1 h2 h3 h5
  show ?thesis by (simp add: ungated_coach_def scenario_defs)
qed

section \<open>Acceptance of a model that wins often enough\<close>

text \<open>
  Claim C5: in an iteration of \<open>learn\<close> that gets to the gating decision with a win rate
  against the past network of at least \<open>min_next_model_winrate\<close>, the accept branch is
  taken whatever the value of \<open>gating_counter\<close> was: \<open>compareToPast\<close> leaves
  \<open>current_iter\<close> as it is and resets \<open>gating_counter\<close> to \<open>0\<close>, and at the end of the
  iteration \<open>current_iter\<close> has increased by exactly \<open>1\<close>.
\<close>

theorem accepted_model_advances:
  assumes "learn_produce x e const_i s = Returns s7"
    and "numWarmupIters (args s) < const_i"
    and "compareWithPast (args s)"
    and "pastCompareFreq (args s) \<noteq> 0"
    and "(const_i - 1) mod pastCompareFreq (args s) = 0"
    and "arenaBatched (args s) \<longrightarrow> arenaMCTS (args s)"
    and "ckpt_files s7 (checkpoint (args s),
           get_iter_file x (max 0 (current_iter s - pastCompareFreq (args s)))) = Some wp"
    and "min_next_model_winrate (args s) \<le> past_winrate e"
    and "ev_iterations (args s) \<noteq> 0"
  shows "\<exists>s8 s'. compareToPast x (past_winrate e) (current_iter s) s7 = Returns s8
           \<and> current_iter s8 = current_iter s \<and> gating_counter s8 = 0
           \<and> learn_body x e const_i s = Returns (s', const_i + 1)
           \<and> current_iter s' = current_iter s + 1 \<and> gating_counter s' = 0"
proof -
  from assms(8) have "\<not> gate_rejects (args s) (past_winrate e) (gating_counter s)"
    by (simp add: gate_rejects_def)
  from learn_body_accepts[OF assms(1-7) this assms(9)] show ?thesis by blast
qed

theorem accepted_model_advances_witness:
  "min_next_model_winrate scenario_args \<le> past_winrate (scenario_env 0.60)
   \<and> gating_counter (scenario_coach scenario_args 2) = 2
   \<and> map_option (current_iter \<circ> fst)
        (returned (learn_body scenario_ext (scenario_env 0.60) 2
           (scenario_coach scenario_args 2)))
      = Some (current_iter (scenario_coach scenario_args 2) + 1)
   \<and> map_option (gating_counter \<circ> fst)
        (returned (learn_body scenario_ext (scenario_env 0.60) 2
           (scenario_coach scenario_args 2)))
      = Some 0"
proof -
  from scenario_produce[of "0.60" 2] obtain s7 where
    h1: "learn_produce scenario_ext (scenario_env 0.60) 2 (scenario_coach scenario_args 2)
           = Returns s7"
    and c: "ckpt_files s7 (checkpoint scenario_args, iter_file_04d 1) = Some 11" by blast
  let ?s = "scenario_coach scenario_args 2"
  have h2: "numWarmupIters (args ?s) < 2" and h3: "compareWithPast (args ?s)"
    and h4: "pastCompareFreq (args ?s) \<noteq> 0"
    and h5: "(2 - 1) mod pastCompareFreq (args ?s) = 0"
    and h6: "arenaBatched (args ?s) \<longrightarrow> arenaMCTS (args ?s)"
    and h8: "min_next_model_winrate (args ?s) \<le> past_winrate (scenario_env 0.60)"
    and h9: "ev_iterations (args ?s) \<noteq> 0"
    by (simp_all add: scenario_facts)
  have h7: "ckpt_files s7 (checkpoint (args ?s),
      get_iter_file scenario_ext (max 0 (current_iter ?s - pastCompareFreq (args ?s))))
      = Some 11"
    using c by (simp add: scenario_facts)
  from accepted_model_advances[OF h1 h2 h3 h4 h5 h6 h7 h8 h9] h8
  show ?thesis by (auto simp: returned_def scenario_facts)
qed

section \<open>Rejection of a model that loses (scenario B)\<close>

text \<open>
  Claim C4: with model gating enabled, \<open>min_next_model_winrate = 0.52\<close>, a win rate of
  \<open>0.40\<close>, \<open>gating_counter = 0\<close>, \<open>max_gating_iters = 3\<close> and \<open>pastCompareFreq = 1\<close>, an
  iteration of \<open>learn\<close> that gets to the gating decision reloads the checkpoint of the
  previous iteration into the network and deletes the checkpoint file just written for
  the current iteration; \<open>compareToPast\<close> rewinds \<open>current_iter\<close> to the previous
  iteration and the increment of the loop restores it, so that it is unchanged at the end
  of the iteration; and \<open>gating_counter\<close> becomes \<open>1\<close>.
\<close>

theorem rejected_model_stays:
  assumes "learn_produce x e const_i s = Returns s7"
    and "numWarmupIters (args s) < const_i"
    and "compareWithPast (args s)"
    and "pastCompareFreq (args s) = 1"
    and "model_gating (args s)"
    and "min_next_model_winrate (args s) = 0.52"
    and "past_winrate e = 0.40"
    and "gating_counter s = 0"
    and "max_gating_iters (args s) = 3"
    and "arenaBatched (args s) \<longrightarrow> arenaMCTS (args s)"
    and "1 \<le> current_iter s"
    and "ckpt_files s7 (checkpoint (args s), get_iter_file x (current_iter s - 1)) = Some wp"
    and "ev_iterations (args s) \<noteq> 0"
  shows "\<exists>s8 s'. compareToPast x (past_winrate e) (current_iter s) s7 = Returns s8
           \<and> current_iter s8 = current_iter s - 1
           \<and> learn_body x e const_i s = Returns (s', const_i + 1)
           \<and> nnet s' = wp
           \<and> ckpt_files s' =
               (ckpt_files s7)((checkpoint (args s), get_iter_file x (current_iter s)) := None)
           \<and> current_iter s' = current_iter s
           \<and> gating_counter s' = 1"
proof -
  note p = learn_produce_Returns[OF assms(1)]
  let ?past = "max 0 (current_iter s - pastCompareFreq (args s))"
  have past: "?past = current_iter s - 1" using assms(4,11) by simp
  let ?t = "s7\<lparr>pnet := wp,
          trace := trace s7 @
            [PnetLoad (checkpoint (args s7))
               (get_iter_file x (max 0 (current_iter s - pastCompareFreq (args s7)))),
             ArenaPlayGames (arenaBatched (args s7)) (arenaCompare (args s7))]\<rparr>"
  have rej: "gate_rejects (args ?t) (past_winrate e) (gating_counter ?t)"
    using assms(5-9) p(1,3) by (simp add: gate_rejects_def)
  have fp: "ckpt_files ?t (checkpoint (args ?t), get_iter_file x ?past) = Some wp"
    using assms(12) past p(1) by simp
  have fi: "ckpt_files ?t (checkpoint (args ?t), get_iter_file x (current_iter s))
      = Some (trained_weights e)"
    using p(1,4) by simp
  have plays: "compareToPast x (past_winrate e) (current_iter s) s7 =
      gate x (past_winrate e) (current_iter s) ?past ?t"
    using assms(10,12) past p(1) by (subst compareToPast_plays[where wp = wp]) simp_all
  note cmp = plays[unfolded gate_rejects_Returns[OF rej fp fi]]
  have ev: "ev_iterations (args (?t\<lparr>nnet := wp,
                ckpt_files := (ckpt_files ?t)
                  ((checkpoint (args ?t), get_iter_file x (current_iter s)) := None),
                trace := trace ?t @
                  [NnetLoad (checkpoint (args ?t)) (get_iter_file x ?past),
                   OsRemove (checkpoint (args ?t)) (get_iter_file x (current_iter s))],
                current_iter := ?past,
                gating_counter := gating_counter ?t + 1\<rparr>)) \<noteq> 0"
    using assms(13) p(1) by simp
  have r: "pastCompareFreq (args s) \<noteq> 0" "(const_i - 1) mod pastCompareFreq (args s) = 0"
    using assms(4) by simp_all
  from learn_body_compares[OF assms(1,2,3) r cmp ev] cmp past p(1,3) assms(8)
  show ?thesis by simp
qed

theorem rejected_model_stays_witness:
  "gating_counter (scenario_coach scenario_args 0) = 0
   \<and> max_gating_iters scenario_args = 3 \<and> pastCompareFreq scenario_args = 1
   \<and> min_next_model_winrate scenario_args = 0.52 \<and> past_winrate (scenario_env 0.40) = 0.40
   \<and> current_iter (scenario_coach scenario_args 0) = 2
   \<and> map_option (nnet \<circ> fst)
        (returned (learn_body scenario_ext (scenario_env 0.40) 2
           (scenario_coach scenario_args 0)))
      = Some 11
   \<and> map_option (current_iter \<circ> fst)
        (returned (learn_body scenario_ext (scenario_env 0.40) 2
           (scenario_coach scenario_args 0)))
      = Some 2
   \<and> map_option (gating_counter \<circ> fst)
        (returned (learn_body scenario_ext (scenario_env 0.40) 2
           (scenario_coach scenario_args 0)))
      = Some 1"
proof -
  from scenario_produce[of "0.40" 0] obtain s7 where
    h1: "learn_produce scenario_ext (scenario_env 0.40) 2 (scenario_coach scenario_args 0)
           = Returns s7"
    and c: "ckpt_files s7 (checkpoint scenario_args, iter_file_04d 1) = Some 11" by blast
  let ?s = "scenario_coach scenario_args 0"
  have h2: "numWarmupIters (args ?s) < 2" and h3: "compareWithPast (args ?s)"
    and h4: "pastCompareFreq (args ?s) = 1" and h5: "model_gating (args ?s)"
    and h6: "min_next_model_winrate (args ?s) = 0.52"
    and h7: "past_winrate (scenario_env 0.40) = 0.40"
    and h8: "gating_counter ?s = 0" and h9: "max_gating_iters (args ?s) = 3"
    and h10: "arenaBatched (args ?s) \<longrightarrow> arenaMCTS (args ?s)"
    and h11: "1 \<le> current_iter ?s"
    and h13: "ev_iterations (args ?s) \<noteq> 0"
    by (simp_all add: scenario_facts)
  have h12: "ckpt_files s7 (checkpoint (args ?s),
           get_iter_file scenario_ext (current_iter ?s - 1)) = Some 11"
    using c by (simp add: scenario_facts)
  from rejected_model_stays[OF h1 h2 h3 h4 h5 h6 h7 h8 h9 h10 h11 h12 h13] h7
  show ?thesis by (auto simp: returned_def scenario_facts)
qed

section \<open>The counter at the bound (scenario C)\<close>

text \<open>
  Claim C2, as stated, fails: with model gating enabled, a win rate of \<open>0.40\<close> below
  \<open>min_next_model_winrate = 0.52\<close>, \<open>max_gating_iters = 3\<close> and \<open>gating_counter = 3\<close>, the
  test \<open>gating_counter <= max_gating_iters\<close> still holds, so the model is rejected once
  more: after the iteration of \<open>learn\<close> the counter is \<open>4\<close>, \<open>current_iter\<close> is still
  \<open>2\<close>, the network holds the checkpoint of iteration 1 again, and the last external
  call has removed the checkpoint file of iteration 2.
\<close>

theorem scenario_C_rejects:
  "map_option (gating_counter \<circ> fst)
     (returned (learn_body scenario_ext (scenario_env 0.40) 2 (scenario_coach scenario_args 3)))
     = Some 4
   \<and> map_option (current_iter \<circ> fst)
     (returned (learn_body scenario_ext (scenario_env 0.40) 2 (scenario_coach scenario_args 3)))
     = Some 2
   \<and> map_option (nnet \<circ> fst)
     (returned (learn_body scenario_ext (scenario_env 0.40) 2 (scenario_coach scenario_args 3)))
     = Some 11
   \<and> map_option (last \<circ> trace \<circ> fst)
     (returned (learn_body scenario_ext (scenario_env 0.40) 2 (scenario_coach scenario_args 3)))
     = Some (OsRemove ''checkpoint/hnefatafl_run2'' ''iteration-0002.pkl'')"
  by code_simp

text \<open>
  Claim C2, amended: the new model is accepted by force once \<open>gating_counter\<close> exceeds
  \<open>max_gating_iters\<close> (for \<open>max_gating_iters = 3\<close>: at \<open>gating_counter = 4\<close>), whatever
  the win rate.  In an iteration of \<open>learn\<close> that gets to the gating decision,
  \<open>current_iter\<close> then advances by \<open>1\<close>, \<open>gating_counter\<close> is reset to \<open>0\<close>, the network
  keeps the parameters it was trained to, and no checkpoint is deleted.
\<close>

theorem exhausted_gating_accepts:
  assumes "learn_produce x e const_i s = Returns s7"
    and "numWarmupIters (args s) < const_i"
    and "compareWithPast (args s)"
    and "pastCompareFreq (args s) \<noteq> 0"
    and "(const_i - 1) mod pastCompareFreq (args s) = 0"
    and "arenaBatched (args s) \<longrightarrow> arenaMCTS (args s)"
    and "ckpt_files s7 (checkpoint (args s),
           get_iter_file x (max 0 (current_iter s - pastCompareFreq (args s)))) = Some wp"
    and "max_gating_iters (args s) < gating_counter s"
    and "ev_iterations (args s) \<noteq> 0"
  shows "\<exists>s'. learn_body x e const_i s = Returns (s', const_i + 1)
           \<and> current_iter s' = current_iter s + 1 \<and> gating_counter s' = 0
           \<and> nnet s' = nnet s7 \<and> ckpt_files s' = ckpt_files s7"
proof -
  from assms(8) have "\<not> gate_rejects (args s) (past_winrate e) (gating_counter s)"
    by (simp add: gate_rejects_def)
  from learn_body_accepts[OF assms(1-7) this assms(9)] show ?thesis by blast
qed

theorem exhausted_gating_accepts_witness:
  "past_winrate (scenario_env 0.40) < min_next_model_winrate scenario_args
   \<and> max_gating_iters scenario_args = 3
   \<and> gating_counter (scenario_coach scenario_args 4) = 4
   \<and> map_option (current_iter \<circ> fst)
        (returned (learn_body scenario_ext (scenario_env 0.40) 2
           (scenario_coach scenario_args 4)))
      = Some (current_iter (scenario_coach scenario_args 4) + 1)
   \<and> map_option (gating_counter \<circ> fst)
        (returned (learn_body scenario_ext (scenario_env 0.40) 2
           (scenario_coach scenario_args 4)))
      = Some 0"
proof -
  from scenario_produce[of "0.40" 4] obtain s7 where
    h1: "learn_produce scenario_ext (scenario_env 0.40) 2 (scenario_coach scenario_args 4)
           = Returns s7"
    and c: "ckpt_files s7 (checkpoint scenario_args, iter_file_04d 1) = Some 11" by blast
  let ?s = "scenario_coach scenario_args 4"
  have h2: "numWarmupIters (args ?s) < 2" and h3: "compareWithPast (args ?s)"
    and h4: "pastCompareFreq (args ?s) \<noteq> 0"
    and h5: "(2 - 1) mod pastCompareFreq (args ?s) = 0"
    and h6: "arenaBatched (args ?s) \<longrightarrow> arenaMCTS (args ?s)"
    and h8: "max_gating_iters (args ?s) < gating_counter ?s"
    and h9: "ev_iterations (args ?s) \<noteq> 0"
    and w: "past_winrate (scenario_env 0.40) < min_next_model_winrate scenario_args"
    by (simp_all add: scenario_facts)
  have h7: "ckpt_files s7 (checkpoint (args ?s),
      get_iter_file scenario_ext (max 0 (current_iter ?s - pastCompareFreq (args ?s))))
      = Some 11"
    using c by (simp add: scenario_facts)
  from exhausted_gating_accepts[OF h1 h2 h3 h4 h5 h6 h7 h8 h9] w
  show ?thesis by (auto simp: returned_def scenario_facts)
qed

section \<open>Helper facts on names, loading, filling and batching\<close>

lemma inj_04d: "inj_on iter_file_04d {0..2}"
proof -
  have "{0..2::int} = {0, 1, 2}" by auto
  then show ?thesis by (simp add: iter_file_04d_def)
qed

lemma load_shards_trace:
  "load_shards x is ds s = Returns (ds', t) \<Longrightarrow>
   trace t = trace s @ concat (map (\<lambda>j. map TorchLoad (shard_files x (args s) j)) is)
   \<and> length ds' = length ds + length is"
proof (induction "is" arbitrary: ds s)
  case Nil
  then show ?case by simp
next
  case (Cons i "is")
  from load_shards_Cons_Returns[OF Cons.prems] obtain d p v where
    "load_shards x is (ds @ [(d, p, v)])
       (s\<lparr>trace := trace s @ map TorchLoad (shard_files x (args s) i)\<rparr>) = Returns (ds', t)"
    by blast
  from Cons.IH[OF this] show ?case by simp
qed




lemma length_shared_write [simp]: "length (shared_write ts ws) = length ts"
  unfolding shared_write_def
  by (induction ws arbitrary: ts) (auto split: prod.splits)

lemma batcher_turn_slots:
  "args (batcher_turn x s ob) = args s"
  "length (input_tensors (batcher_turn x s ob)) = length (input_tensors s)"
  "length (policy_tensors (batcher_turn x s ob)) = length (policy_tensors s)"
  "length (value_tensors (batcher_turn x s ob)) = length (value_tensors s)"
  "length (batch_ready (batcher_turn x s ob)) = length (batch_ready s)"
  "trace (batcher_turn x s ob) = trace s @ turn_events ob"
  by (simp_all add: batcher_turn_def serve_def turn_events_def Let_def split: option.splits)

lemma batch_loop_step:
  assumes "completed_value ob \<noteq> workers (args s)"
    and "\<And>w. ready_get ob = Some w \<Longrightarrow>
           w < length (input_tensors s) \<and> w < length (policy_tensors s)
           \<and> w < length (value_tensors s) \<and> w < length (batch_ready s)"
  shows "batch_loop x (ob # os) n s =
     batch_loop x os (if games_played_value ob > n then games_played_value ob else n)
       (batcher_turn x s ob)"
proof (cases "ready_get ob")
  case None
  with assms(1) show ?thesis by (simp add: batcher_turn_def Let_def)
next
  case (Some w)
  with assms(2)[OF Some] assms(1) show ?thesis
    by (simp add: batcher_turn_def serve_def Let_def split: prod.splits)
qed

lemma foldl_batcher_trace:
  "trace (foldl (batcher_turn x) s os) = trace s @ concat (map turn_events os)"
  by (induction os arbitrary: s) (simp_all add: batcher_turn_slots)

lemma batch_loop_spec:
  assumes "length (input_tensors s) = k" "length (policy_tensors s) = k"
    "length (value_tensors s) = k" "length (batch_ready s) = k"
    and "\<forall>ob \<in> set (turns_before_done (workers (args s)) os).
           \<forall>w. ready_get ob = Some w \<longrightarrow> w < k"
  shows "batch_loop x os n s =
     (if \<exists>ob \<in> set os. completed_value ob = workers (args s)
      then Returns (foldl (batcher_turn x) s (turns_before_done (workers (args s)) os))
      else NoReturn)"
  using assms
proof (induction os arbitrary: n s)
  case Nil
  then show ?case by simp
next
  case (Cons ob os)
  show ?case
  proof (cases "completed_value ob = workers (args s)")
    case True
    then show ?thesis by (simp add: turns_before_done_def)
  next
    case False
    have v: "ready_get ob = Some w \<Longrightarrow>
           w < length (input_tensors s) \<and> w < length (policy_tensors s)
           \<and> w < length (value_tensors s) \<and> w < length (batch_ready s)" for w
      using Cons.prems False by (simp add: turns_before_done_def)
    have rest: "\<forall>ob \<in> set (turns_before_done (workers (args (batcher_turn x s ob))) os).
           \<forall>w. ready_get ob = Some w \<longrightarrow> w < k"
      using Cons.prems(5) False by (simp add: turns_before_done_def batcher_turn_slots)
    have IH: "batch_loop x os m (batcher_turn x s ob) =
     (if \<exists>ob' \<in> set os. completed_value ob' = workers (args (batcher_turn x s ob))
      then Returns (foldl (batcher_turn x) (batcher_turn x s ob)
              (turns_before_done (workers (args (batcher_turn x s ob))) os))
      else NoReturn)" for m
      by (rule Cons.IH) (simp_all add: batcher_turn_slots Cons.prems(1-4) rest)
    have step: "batch_loop x (ob # os) n s =
        batch_loop x os (if games_played_value ob > n then games_played_value ob else n)
          (batcher_turn x s ob)"
      by (rule batch_loop_step[OF False v])
    have tw: "turns_before_done (workers (args s)) (ob # os)
        = ob # turns_before_done (workers (args s)) os"
      using False by (simp add: turns_before_done_def)
    have ex: "(\<exists>ob' \<in> set (ob # os). completed_value ob' = workers (args s))
        = (\<exists>ob' \<in> set os. completed_value ob' = workers (args s))"
      using False by simp
    show ?thesis
      unfolding step IH tw ex by (simp add: batcher_turn_slots)
  qed
qed

lemma count_turn_events:
  "count_list (concat (map turn_events os)) (NnetProcess w)
     = count_list (map ready_get os) (Some w)"
  by (induction os) (auto simp: turn_events_def split: option.splits)

section \<open>Roll-back before deletion\<close>

text \<open>
  Claim C9: in the rejection branch of \<open>compareToPast\<close>, the checkpoint of the past
  iteration \<open>max(0, i - pastCompareFreq)\<close> is loaded into the network before the
  checkpoint file of iteration \<open>i\<close> is removed; and for \<open>i \<ge> 1\<close>, a positive
  \<open>pastCompareFreq\<close> and file names that differ between the iterations up to \<open>i\<close>, the
  past iteration lies before \<open>i\<close> and its checkpoint, which the network now holds, is
  not the one deleted.
\<close>

theorem rejection_rolls_back_before_delete:
  assumes "gate_rejects (args s) winrate (gating_counter s)"
    and "arenaBatched (args s) \<longrightarrow> arenaMCTS (args s)"
    and "ckpt_files s (checkpoint (args s),
           get_iter_file x (max 0 (iteration - pastCompareFreq (args s)))) = Some wp"
    and "ckpt_files s (checkpoint (args s), get_iter_file x iteration) = Some wi"
  shows "compareToPast x winrate iteration s =
           Returns (s\<lparr>pnet := wp, nnet := wp,
                      ckpt_files := (ckpt_files s)
                        ((checkpoint (args s), get_iter_file x iteration) := None),
                      trace := trace s @
                        [PnetLoad (checkpoint (args s))
                           (get_iter_file x (max 0 (iteration - pastCompareFreq (args s)))),
                         ArenaPlayGames (arenaBatched (args s)) (arenaCompare (args s)),
                         NnetLoad (checkpoint (args s))
                           (get_iter_file x (max 0 (iteration - pastCompareFreq (args s)))),
                         OsRemove (checkpoint (args s)) (get_iter_file x iteration)],
                      current_iter := max 0 (iteration - pastCompareFreq (args s)),
                      gating_counter := gating_counter s + 1\<rparr>)
       \<and> (1 \<le> iteration \<and> 1 \<le> pastCompareFreq (args s)
            \<and> inj_on (get_iter_file x) {0..iteration}
          \<longrightarrow> max 0 (iteration - pastCompareFreq (args s)) < iteration
            \<and> ((ckpt_files s)((checkpoint (args s), get_iter_file x iteration) := None))
                 (checkpoint (args s),
                  get_iter_file x (max 0 (iteration - pastCompareFreq (args s)))) = Some wp)"
proof -
  let ?past = "max 0 (iteration - pastCompareFreq (args s))"
  let ?t = "s\<lparr>pnet := wp,
          trace := trace s @
            [PnetLoad (checkpoint (args s)) (get_iter_file x ?past),
             ArenaPlayGames (arenaBatched (args s)) (arenaCompare (args s))]\<rparr>"
  have rej: "gate_rejects (args ?t) winrate (gating_counter ?t)" using assms(1) by simp
  have fp: "ckpt_files ?t (checkpoint (args ?t), get_iter_file x ?past) = Some wp"
    using assms(3) by simp
  have fi: "ckpt_files ?t (checkpoint (args ?t), get_iter_file x iteration) = Some wi"
    using assms(4) by simp
  have run: "compareToPast x winrate iteration s =
           Returns (s\<lparr>pnet := wp, nnet := wp,
                      ckpt_files := (ckpt_files s)
                        ((checkpoint (args s), get_iter_file x iteration) := None),
                      trace := trace s @
                        [PnetLoad (checkpoint (args s)) (get_iter_file x ?past),
                         ArenaPlayGames (arenaBatched (args s)) (arenaCompare (args s)),
                         NnetLoad (checkpoint (args s)) (get_iter_file x ?past),
                         OsRemove (checkpoint (args s)) (get_iter_file x iteration)],
                      current_iter := ?past,
                      gating_counter := gating_counter s + 1\<rparr>)"
    unfolding compareToPast_plays[OF assms(2,3)] gate_rejects_Returns[OF rej fp fi] by simp
  have kept: "?past < iteration
      \<and> ((ckpt_files s)((checkpoint (args s), get_iter_file x iteration) := None))
           (checkpoint (args s), get_iter_file x ?past) = Some wp"
    if d: "1 \<le> iteration" "1 \<le> pastCompareFreq (args s)"
      and inj: "inj_on (get_iter_file x) {0..iteration}"
  proof -
    from d have lt: "?past < iteration" and ge: "0 \<le> ?past" by simp_all
    from lt ge d have "?past \<in> {0..iteration}" "iteration \<in> {0..iteration}" by simp_all
    with inj lt have "get_iter_file x ?past \<noteq> get_iter_file x iteration"
      by (auto dest: inj_onD)
    with assms(3) lt show ?thesis by simp
  qed
  from run kept show ?thesis by blast
qed

theorem rejection_rolls_back_before_delete_witness:
  "gate_rejects (args retry_once_coach) 0.40 (gating_counter retry_once_coach)
   \<and> (1::int) \<le> 2 \<and> 1 \<le> pastCompareFreq (args retry_once_coach)
   \<and> inj_on (get_iter_file scenario_ext) {0..2}
   \<and> map_option trace (returned (compareToPast scenario_ext 0.40 2 retry_once_coach))
       = Some [PnetLoad ''checkpoint/hnefatafl_run2'' ''iteration-0001.pkl'',
               ArenaPlayGames True 128,
               NnetLoad ''checkpoint/hnefatafl_run2'' ''iteration-0001.pkl'',
               OsRemove ''checkpoint/hnefatafl_run2'' ''iteration-0002.pkl'']
   \<and> map_option nnet (returned (compareToPast scenario_ext 0.40 2 retry_once_coach))
       = Some 11
   \<and> ckpt_files (the (returned (compareToPast scenario_ext 0.40 2 retry_once_coach)))
        (''checkpoint/hnefatafl_run2'', ''iteration-0001.pkl'') = Some 11
   \<and> ckpt_files (the (returned (compareToPast scenario_ext 0.40 2 retry_once_coach)))
        (''checkpoint/hnefatafl_run2'', ''iteration-0002.pkl'') = None"
proof -
  let ?s = retry_once_coach
  have h1: "gate_rejects (args ?s) 0.40 (gating_counter ?s)"
    and h2: "arenaBatched (args ?s) \<longrightarrow> arenaMCTS (args ?s)"
    and h3: "ckpt_files ?s (checkpoint (args ?s),
           get_iter_file scenario_ext (max 0 (2 - pastCompareFreq (args ?s)))) = Some 11"
    and h4: "ckpt_files ?s (checkpoint (args ?s), get_iter_file scenario_ext 2) = Some 12"
    and d: "1 \<le> pastCompareFreq (args ?s)"
    by (simp_all add: retry_once_coach_def scenario_defs gate_rejects_def)
  have inj: "inj_on (get_iter_file scenario_ext) {0..2}"
    using inj_04d by (simp add: scenario_facts)
  from rejection_rolls_back_before_delete[OF h1 h2 h3 h4] h1 d inj
  show ?thesis
    by (simp add: returned_def) (simp add: retry_once_coach_def scenario_defs)
qed

section \<open>The window of shards used for training\<close>

text \<open>
  Claim C6: \<open>train(i)\<close> computes the window size
  \<open>clamp(4, (i+4)//2, numItersForTrainExamplesHistory)\<close>, that is
  \<open>min(max(4, (i+4)//2), numItersForTrainExamplesHistory)\<close>, and when it returns it has
  loaded exactly the shards of the iterations \<open>max(1, i - windowSize)\<close> to \<open>i\<close>, in this
  order, three files each; for \<open>i = 2\<close> and \<open>numItersForTrainExamplesHistory = 10\<close> the
  window size is \<open>4\<close> and the iterations are \<open>1\<close> and \<open>2\<close>.
\<close>

theorem train_window:
  assumes "train x trained iteration s = Returns s'"
  shows "currentHistorySize (args s) iteration
           = clamp 4 ((iteration + 4) div 2) (numItersForTrainExamplesHistory (args s))
       \<and> trace s' = trace s @
           concat (map (\<lambda>j. map TorchLoad (shard_files x (args s) j))
             [max 1 (iteration - clamp 4 ((iteration + 4) div 2)
                       (numItersForTrainExamplesHistory (args s))) .. iteration])
           @ [NnetTrain (train_steps_per_iteration (args s)),
              NnetSave (checkpoint (args s)) (get_iter_file x iteration)]
       \<and> (iteration = 2 \<and> numItersForTrainExamplesHistory (args s) = 10
            \<longrightarrow> currentHistorySize (args s) iteration = 4
              \<and> [max 1 (iteration - currentHistorySize (args s) iteration) .. iteration] = [1, 2])"
proof -
  have w: "currentHistorySize (args s) iteration
           = clamp 4 ((iteration + 4) div 2) (numItersForTrainExamplesHistory (args s))"
    by (simp add: currentHistorySize_def clamp_def)
  from assms obtain ds t where
    l: "load_shards x
          (py_range (max 1 (iteration - currentHistorySize (args s) iteration)) (iteration + 1))
          [] s = Returns (ds, t)"
    and s': "s' = t\<lparr>nnet := trained,
                    ckpt_files := (ckpt_files t)
                      ((checkpoint (args t), get_iter_file x iteration) \<mapsto> trained),
                    trace := trace t @
                      [NnetTrain (train_steps_per_iteration (args t)),
                       NnetSave (checkpoint (args t)) (get_iter_file x iteration)]\<rparr>"
    by (auto simp: train_def bind_Returns_iff split: if_splits)
  from load_shards_keeps[OF l] have a: "args t = args s" by (simp add: keeps_def)
  from load_shards_trace[OF l] s' a w
  have tr: "trace s' = trace s @
           concat (map (\<lambda>j. map TorchLoad (shard_files x (args s) j))
             [max 1 (iteration - clamp 4 ((iteration + 4) div 2)
                       (numItersForTrainExamplesHistory (args s))) .. iteration])
           @ [NnetTrain (train_steps_per_iteration (args s)),
              NnetSave (checkpoint (args s)) (get_iter_file x iteration)]"
    by (simp add: py_range_def)
  have d: "currentHistorySize (args s) iteration = 4
              \<and> [max 1 (iteration - currentHistorySize (args s) iteration) .. iteration] = [1, 2]"
    if "iteration = 2" "numItersForTrainExamplesHistory (args s) = 10"
    using that by (simp add: currentHistorySize_def upto.simps)
  from w tr d show ?thesis by blast
qed

theorem train_window_witness:
  "numItersForTrainExamplesHistory (args shards_ready_coach) = 10
   \<and> currentHistorySize (args shards_ready_coach) 2 = 4
   \<and> map_option trace (returned (train scenario_ext 12 2 shards_ready_coach))
       = Some [TorchLoad ''data/hnefatafl_run2/iteration-0001-data.pkl'',
               TorchLoad ''data/hnefatafl_run2/iteration-0001-policy.pkl'',
               TorchLoad ''data/hnefatafl_run2/iteration-0001-value.pkl'',
               TorchLoad ''data/hnefatafl_run2/iteration-0002-data.pkl'',
               TorchLoad ''data/hnefatafl_run2/iteration-0002-policy.pkl'',
               TorchLoad ''data/hnefatafl_run2/iteration-0002-value.pkl'',
               NnetTrain 512,
               NnetSave ''checkpoint/hnefatafl_run2'' ''iteration-0002.pkl'']"
proof -
  have "\<exists>s'. train scenario_ext 12 2 shards_ready_coach = Returns s'"
    by (simp add: shards_ready_coach_def scenario_defs train_def currentHistorySize_def
        py_range_def torch_load_def TensorDataset_def str_replace_def Let_def upto.simps)
  then obtain s' where h: "train scenario_ext 12 2 shards_ready_coach = Returns s'" ..
  have a: "numItersForTrainExamplesHistory (args shards_ready_coach) = 10"
    "trace shards_ready_coach = []" "args shards_ready_coach = scenario_args"
    by (simp_all add: shards_ready_coach_def scenario_defs)
  from train_window[OF h] a show ?thesis
    unfolding h
    by (simp add: returned_def clamp_def upto.simps shard_files_def scenario_defs
        str_replace_def currentHistorySize_def)
qed

section \<open>Writing a shard and reading it back\<close>



section \<open>The batching loop\<close>

text \<open>
  Claim C7: for slots of equal number and notifications that name existing slots,
  \<open>processSelfPlayBatches\<close> returns exactly when the counter \<open>completed\<close> shows
  \<open>args.workers\<close> at a loop test; until then it has taken one turn of the batcher per
  loop test: for a notification one evaluation of that worker's input tensor, whose
  policy and value are copied into that worker's tensors and whose event is set, and for
  a timeout nothing.  So the evaluations of a worker's input are as many as the
  notifications of that worker.
\<close>

theorem batching_loop_serves_each_notification_once:
  assumes "length (input_tensors s) = k" and "length (policy_tensors s) = k"
    and "length (value_tensors s) = k" and "length (batch_ready s) = k"
    and "\<forall>ob \<in> set (turns_before_done (workers (args s)) os).
           \<forall>w. ready_get ob = Some w \<longrightarrow> w < k"
  shows "processSelfPlayBatches x os s =
     (if \<exists>ob \<in> set os. completed_value ob = workers (args s)
      then Returns (foldl (batcher_turn x) s (turns_before_done (workers (args s)) os))
      else NoReturn)
    \<and> trace (foldl (batcher_turn x) s (turns_before_done (workers (args s)) os))
        = trace s @ concat (map turn_events (turns_before_done (workers (args s)) os))
    \<and> count_list (concat (map turn_events (turns_before_done (workers (args s)) os)))
          (NnetProcess w)
        = count_list (map ready_get (turns_before_done (workers (args s)) os)) (Some w)"
  using batch_loop_spec[OF assms] foldl_batcher_trace count_turn_events
  by (simp add: processSelfPlayBatches_def)

theorem batching_loop_serves_each_notification_once_witness:
  "length (input_tensors (generateSelfPlayAgents scenario_ext (scenario_coach scenario_args 0)))
     = 1
   \<and> map_option trace
        (returned (processSelfPlayBatches scenario_ext scenario_obs
           (generateSelfPlayAgents scenario_ext (scenario_coach scenario_args 0))))
       = Some [NnetProcess 0, BatchReadySet 0]
   \<and> map_option policy_tensors
        (returned (processSelfPlayBatches scenario_ext scenario_obs
           (generateSelfPlayAgents scenario_ext (scenario_coach scenario_args 0))))
       = Some [[[1 / 2, 1 / 2]]]
   \<and> map_option value_tensors
        (returned (processSelfPlayBatches scenario_ext scenario_obs
           (generateSelfPlayAgents scenario_ext (scenario_coach scenario_args 0))))
       = Some [[[0]]]
   \<and> map_option batch_ready
        (returned (processSelfPlayBatches scenario_ext scenario_obs
           (generateSelfPlayAgents scenario_ext (scenario_coach scenario_args 0))))
       = Some [True]
   \<and> processSelfPlayBatches scenario_ext (take 2 scenario_obs)
        (generateSelfPlayAgents scenario_ext (scenario_coach scenario_args 0)) = NoReturn"
proof -
  let ?s = "generateSelfPlayAgents scenario_ext (scenario_coach scenario_args 0)"
  have s: "?s = (scenario_coach scenario_args 0)
      \<lparr>input_tensors := [[[0, 0]]], policy_tensors := [[[0, 0]]], value_tensors := [[[0]]],
       batch_ready := [False], agents := [0]\<rparr>"
    by (simp add: generateSelfPlayAgents_def scenario_defs numeral_2_eq_2)
  have h: "length (input_tensors ?s) = 1" "length (policy_tensors ?s) = 1"
    "length (value_tensors ?s) = 1" "length (batch_ready ?s) = 1"
    by (simp_all add: s)
  have w: "workers (args ?s) = 1" unfolding s by (simp add: scenario_defs)
  have v1: "\<forall>ob \<in> set (turns_before_done (workers (args ?s)) scenario_obs).
           \<forall>w. ready_get ob = Some w \<longrightarrow> w < 1"
    by (simp add: w turns_before_done_def scenario_obs_def)
  have v2: "\<forall>ob \<in> set (turns_before_done (workers (args ?s)) (take 2 scenario_obs)).
           \<forall>w. ready_get ob = Some w \<longrightarrow> w < 1"
    by (simp add: w turns_before_done_def scenario_obs_def)
  from batching_loop_serves_each_notification_once[OF h v1, of scenario_ext 0]
    batching_loop_serves_each_notification_once[OF h v2, of scenario_ext 0] h(1)
  show ?thesis
    unfolding w s
    by (simp add: returned_def turns_before_done_def batcher_turn_def
        serve_def shared_write_def turn_events_def Let_def scenario_defs)
qed

end
